theory Spec2Isabelle
  imports Complex_Main "HOL-Library.Multiset"
begin

section \<open>Vigilant Sentinel: fraud scoring, severity ladder and threat response\<close>

text \<open>
  The development embeds \<^verbatim>\<open>backend/agents/fraud_detection_agent.py\<close>,
  \<^verbatim>\<open>backend/agents/threat_response_agent.py\<close> and the two request handlers
  \<^verbatim>\<open>analyze_transaction\<close> and \<^verbatim>\<open>respond_to_alert\<close> of \<^verbatim>\<open>backend/main.py\<close>.

  Conventions of the embedding.
  \<^item> In the analyzers, the ladder and the handlers a Python \<^verbatim>\<open>float\<close> is an exact
    \<^typ>\<open>real\<close>: a decimal literal such as \<^verbatim>\<open>0.7\<close> denotes seven tenths and \<^verbatim>\<open>+\<close> is
    exact addition. Only properties that binary rounding leaves untouched are stated of
    these definitions. Where the rounding of an addition decides a property, the
    binary64 arithmetic of the subsection on binary64 addition is used instead.
  \<^item> A Python \<^verbatim>\<open>str\<close> is a \<^typ>\<open>string\<close>.
  \<^item> Console output (\<^verbatim>\<open>print\<close>) and logger calls leave no trace in the model.
  \<^item> Library calls whose result the code only consumes (the ISO timestamp parser, the
    text-completion service, the wall clock) are parameters of the model.
\<close>

subsection \<open>Data model\<close>

text \<open>\<^verbatim>\<open>class TransactionData(BaseModel)\<close>; the field \<^verbatim>\<open>id\<close> is called \<open>txn_id\<close> here.\<close>

record TransactionData =
  txn_id :: string
  user_id :: string
  amount :: real
  merchant :: string
  location :: string
  timestamp :: string
  device_id :: string
  ip_address :: string
  card_type :: string

text \<open>The part of \<^verbatim>\<open>datetime\<close> the code reads or stores.\<close>

record datetime =
  year :: nat
  month :: nat
  day :: nat
  hour :: nat
  minute :: nat
  second :: nat

text \<open>
  The ranges the \<^verbatim>\<open>datetime\<close> constructor enforces on the fields of a time of day and
  of a date; outside them it raises \<^verbatim>\<open>ValueError\<close>, so no \<^verbatim>\<open>datetime\<close> object has an
  hour above 23.
\<close>

definition valid_datetime :: "datetime \<Rightarrow> bool" where
  "valid_datetime dt =
     (1 \<le> year dt \<and> year dt \<le> 9999 \<and> 1 \<le> month dt \<and> month dt \<le> 12
      \<and> 1 \<le> day dt \<and> day dt \<le> 31
      \<and> hour dt < 24 \<and> minute dt < 60 \<and> second dt < 60)"

text \<open>
  \<^verbatim>\<open>datetime.fromisoformat\<close>. The parameter \<open>parse\<close> reads the fields from the string
  (\<open>None\<close> when the string has not the format); the result is a \<^verbatim>\<open>datetime\<close> only when
  the fields are in range, and \<open>None\<close>, the library's \<^verbatim>\<open>ValueError\<close>, otherwise.
\<close>

definition datetime_fromisoformat :: "(string \<Rightarrow> datetime option) \<Rightarrow> string \<Rightarrow> datetime option" where
  "datetime_fromisoformat parse s =
     (case parse s of
        Some dt \<Rightarrow> if valid_datetime dt then Some dt else None
      | None \<Rightarrow> None)"

text \<open>
  The dictionary every analyzer returns. The keys \<^verbatim>\<open>analysis_type\<close>, \<^verbatim>\<open>risk_factors\<close> and
  \<^verbatim>\<open>risk_score\<close> are common to all five; \<^verbatim>\<open>recent_transaction_count\<close> exists in the
  velocity analyzer's dictionary only. The echoed input and the \<^verbatim>\<open>details\<close> text are
  left out: nothing reads them.
\<close>

record analysis =
  analysis_type :: string
  risk_factors :: "string list"
  risk_score :: real
  recent_transaction_count :: "int option"

text \<open>\<^verbatim>\<open>class FraudAlert(BaseModel)\<close> of the fraud detection agent.\<close>

record FraudAlert =
  transaction_id :: string
  alert_risk_score :: real
  alert_risk_factors :: "string list"
  severity :: string
  recommended_action :: string
  alert_timestamp :: datetime
  agent_reasoning :: string

subsection \<open>String helpers\<close>

text \<open>Python's \<^verbatim>\<open>sub in s\<close> on strings: \<open>sub\<close> occurs in \<open>s\<close> as a contiguous block.\<close>

fun startswith :: "string \<Rightarrow> string \<Rightarrow> bool" where
  "startswith s [] = True"
| "startswith [] (p # ps) = False"
| "startswith (c # cs) (p # ps) = (c = p \<and> startswith cs ps)"

fun str_contains :: "string \<Rightarrow> string \<Rightarrow> bool" where
  "str_contains sub [] = (sub = [])"
| "str_contains sub (c # cs) = (startswith (c # cs) sub \<or> str_contains sub cs)"

text \<open>\<^verbatim>\<open>s.replace('Z', '+00:00')\<close>: every occurrence of the character is replaced.\<close>

definition replace_Z :: "string \<Rightarrow> string" where
  "replace_Z s = concat (map (\<lambda>c. if c = CHR ''Z'' then ''+00:00'' else [c]) s)"

text \<open>\<^verbatim>\<open>s.lower()\<close> on the ASCII letters; other characters are kept.\<close>

definition lower_char :: "char \<Rightarrow> char" where
  "lower_char c =
     (case map_of (zip ''ABCDEFGHIJKLMNOPQRSTUVWXYZ'' ''abcdefghijklmnopqrstuvwxyz'') c of
        Some l \<Rightarrow> l
      | None \<Rightarrow> c)"

definition lower :: "string \<Rightarrow> string" where
  "lower s = map lower_char s"

text \<open>Decimal rendering of a natural number, as an f-string renders an \<^verbatim>\<open>int\<close>.\<close>

definition digit_char :: "nat \<Rightarrow> char" where
  "digit_char d = ''0123456789'' ! d"

fun str_nat :: "nat \<Rightarrow> string" where
  "str_nat n = (if n < 10 then [digit_char n] else str_nat (n div 10) @ [digit_char (n mod 10)])"

declare str_nat.simps [simp del]

subsection \<open>Signal analyzers\<close>

text \<open>Python's \<^verbatim>\<open>x % m\<close> on floats for a positive modulus: the result lies in \<open>[0, m)\<close>.\<close>

definition float_mod :: "real \<Rightarrow> real \<Rightarrow> real" where
  "float_mod x m = x - m * of_int \<lfloor>x / m\<rfloor>"

definition analyze_transaction_amount :: "real \<Rightarrow> string \<Rightarrow> analysis" where
  "analyze_transaction_amount amt uid =
     (let (fs1, s1) =
            (if amt > 5000 then ([''High transaction amount (>$5000)''], 0.3)
             else if amt > 1000 then ([''Elevated transaction amount (>$1000)''], 0.1)
             else ([], 0));
          (fs2, s2) =
            (if float_mod amt 100 = 0 then (fs1 @ [''Round amount transaction''], s1 + 0.05)
             else (fs1, s1))
      in \<lparr>analysis_type = ''amount_analysis'', risk_factors = fs2,
          risk_score = min s2 1.0, recent_transaction_count = None\<rparr>)"

definition high_risk_locations :: "string list" where
  "high_risk_locations = [''Unknown'', ''Foreign'', ''High-risk country'']"

definition analyze_location_pattern :: "string \<Rightarrow> string \<Rightarrow> analysis" where
  "analyze_location_pattern loc uid =
     (let (fs1, s1) =
            (if list_ex (\<lambda>risk_loc. str_contains risk_loc loc) high_risk_locations
             then ([''High-risk location: '' @ loc], 0.4)
             else ([], 0));
          (fs2, s2) =
            (if str_contains ''ATM'' loc then (fs1 @ [''ATM transaction''], s1 + 0.1)
             else (fs1, s1))
      in \<lparr>analysis_type = ''location_analysis'', risk_factors = fs2,
          risk_score = min s2 1.0, recent_transaction_count = None\<rparr>)"

definition analyze_device_pattern :: "string \<Rightarrow> string \<Rightarrow> analysis" where
  "analyze_device_pattern dev uid =
     (let (fs, s) =
            (if dev = ''unknown'' \<or> dev = ''new_device''
             then ([''Unknown or new device''], 0.3)
             else ([], 0))
      in \<lparr>analysis_type = ''device_analysis'', risk_factors = fs,
          risk_score = min s 1.0, recent_transaction_count = None\<rparr>)"

text \<open>
  The time analyzer. \<open>None\<close> from \<open>datetime_fromisoformat\<close> is the \<^verbatim>\<open>ValueError\<close> the
  library raises on a string it cannot parse, which the analyzer's
  \<^verbatim>\<open>except Exception\<close> catches.
\<close>

definition analyze_time_pattern ::
  "(string \<Rightarrow> datetime option) \<Rightarrow> string \<Rightarrow> string \<Rightarrow> analysis" where
  "analyze_time_pattern parse ts uid =
     (let (fs, s) =
            (case datetime_fromisoformat parse (replace_Z ts) of
               Some dt \<Rightarrow>
                 (if hour dt < 6 \<or> hour dt > 23
                  then ([''Unusual transaction time: '' @ str_nat (hour dt) @ '':00''], 0.2)
                  else ([], 0))
             | None \<Rightarrow> ([''Invalid timestamp format''], 0.1))
      in \<lparr>analysis_type = ''time_analysis'', risk_factors = fs,
          risk_score = min s 1.0, recent_transaction_count = None\<rparr>)"

text \<open>The velocity analyzer: the recent-transaction count is the literal the code assigns.\<close>

definition check_velocity_patterns :: "string \<Rightarrow> real \<Rightarrow> analysis" where
  "check_velocity_patterns uid current_amount =
     (let recent_transactions = (3 :: int);
          (fs, s) =
            (if recent_transactions > 5
             then ([''High transaction velocity (>5 transactions recently)''], 0.4)
             else if recent_transactions > 2
             then ([''Elevated transaction velocity''], 0.2)
             else ([], 0))
      in \<lparr>analysis_type = ''velocity_analysis'', risk_factors = fs,
          risk_score = min s 1.0, recent_transaction_count = Some recent_transactions\<rparr>)"

subsection \<open>Risk aggregation, severity ladder and the analysis pipeline\<close>

text \<open>
  What the pipeline takes from its surroundings during one call: the timestamp parser, the
  text returned by \<^verbatim>\<open>call_bedrock_directly\<close> (which catches every exception itself and then
  returns a fixed sentinel text), the reading of \<^verbatim>\<open>datetime.now()\<close>, the measured latency
  in milliseconds, and whether a statement of the \<^verbatim>\<open>try\<close> body raised an
  \<^verbatim>\<open>Exception\<close> (\<open>stage_fault\<close>).
\<close>

record runtime =
  fromisoformat :: "string \<Rightarrow> datetime option"
  narrative :: string
  now :: datetime
  elapsed_ms :: int
  stage_fault :: bool

text \<open>
  The aggregation loop \<^verbatim>\<open>for i, analysis in enumerate(analyses, 1)\<close>: the accumulator is
  the pair \<^verbatim>\<open>(all_risk_factors, total_risk_score)\<close>. The total is added exactly here;
  the code adds binary64 numbers, and the rounded total of the same loop is \<open>b64_sum\<close>
  below. The two differ by the rounding of at most five additions, so no property that
  depends on the order of the additions is stated of this definition.
\<close>

fun aggregate :: "analysis list \<Rightarrow> string list \<times> real \<Rightarrow> string list \<times> real" where
  "aggregate [] acc = acc"
| "aggregate (a # as) (all_risk_factors, total_risk_score) =
     aggregate as (all_risk_factors @ risk_factors a, total_risk_score + risk_score a)"

definition combine_analyses :: "analysis list \<Rightarrow> string list \<times> real" where
  "combine_analyses analyses =
     (let (all_risk_factors, total_risk_score) = aggregate analyses ([], 0)
      in (all_risk_factors, min total_risk_score 1.0))"

text \<open>The ladder \<^verbatim>\<open>if final_risk_score >= 0.7: ... elif ... else\<close>: severity and action.\<close>

definition determine_severity :: "real \<Rightarrow> string \<times> string" where
  "determine_severity final_risk_score =
     (if final_risk_score \<ge> 0.7 then (''CRITICAL'', ''BLOCK_TRANSACTION_AND_FREEZE_ACCOUNT'')
      else if final_risk_score \<ge> 0.5 then (''HIGH'', ''REQUIRE_ADDITIONAL_VERIFICATION'')
      else if final_risk_score \<ge> 0.3 then (''MEDIUM'', ''REQUIRE_BASIC_VERIFICATION'')
      else (''LOW'', ''MONITOR_ONLY''))"

text \<open>The five analyzers in the order the pipeline calls and lists them.\<close>

definition run_analyzers :: "runtime \<Rightarrow> TransactionData \<Rightarrow> analysis list" where
  "run_analyzers rt t =
     [analyze_transaction_amount (amount t) (user_id t),
      analyze_location_pattern (location t) (user_id t),
      analyze_device_pattern (device_id t) (user_id t),
      analyze_time_pattern (fromisoformat rt) (timestamp t) (user_id t),
      check_velocity_patterns (user_id t) (amount t)]"

definition fallback_fraud_alert :: "runtime \<Rightarrow> TransactionData \<Rightarrow> FraudAlert" where
  "fallback_fraud_alert rt t =
     (let (s1, fs1) =
            (if amount t > 1000 then (0 + 0.3, [''High amount transaction (fallback)''])
             else (0, []));
          (s2, fs2) =
            (if str_contains ''unknown'' (lower (location t))
             then (s1 + 0.2, fs1 @ [''Unknown location (fallback)''])
             else (s1, fs1));
          sev = (if s2 > 0.3 then ''MEDIUM'' else ''LOW'');
          act = (if s2 > 0.3 then ''REQUIRE_BASIC_VERIFICATION'' else ''MONITOR_ONLY'')
      in \<lparr>transaction_id = txn_id t, alert_risk_score = min s2 1.0,
          alert_risk_factors = fs2, severity = sev, recommended_action = act,
          alert_timestamp = now rt,
          agent_reasoning = ''Fallback analysis used due to agent error''\<rparr>)"

definition process_transaction_alert :: "runtime \<Rightarrow> TransactionData \<Rightarrow> FraudAlert" where
  "process_transaction_alert rt t =
     (if stage_fault rt then fallback_fraud_alert rt t
      else
        let (all_risk_factors, final_risk_score) = combine_analyses (run_analyzers rt t);
            (sev, act) = determine_severity final_risk_score
        in \<lparr>transaction_id = txn_id t, alert_risk_score = final_risk_score,
            alert_risk_factors = all_risk_factors, severity = sev, recommended_action = act,
            alert_timestamp = now rt, agent_reasoning = narrative rt\<rparr>)"

subsection \<open>Threat response\<close>

text \<open>
  The alert dictionary handed to the executor (\<^verbatim>\<open>Dict[str, Any]\<close>): a key may be absent,
  and the executor reads each one with \<^verbatim>\<open>.get(key, default)\<close>.
\<close>

record alert_dict =
  d_transaction_id :: "string option"
  d_user_id :: "string option"
  d_risk_score :: "real option"
  d_risk_factors :: "string list option"
  d_severity :: "string option"
  d_recommended_action :: "string option"
  d_timestamp :: "datetime option"

text \<open>\<^verbatim>\<open>class ThreatResponse(BaseModel)\<close> of the threat response agent.\<close>

record ThreatResponse =
  alert_id :: string
  actions_taken :: "string list"
  status :: string
  response_timestamp :: datetime
  response_time_ms :: int
  response_reasoning :: string

text \<open>
  The response functions only print, log and return a dictionary that the executor drops.
  The model keeps the sequence of calls: the function and its arguments, without the
  free-text \<^verbatim>\<open>reason\<close> (it embeds a rendering of the score).
\<close>

datatype action_call =
    BlockTransaction string
  | FreezeAccount string nat
  | SendFraudAlert string string string
  | RequireVerification string string
  | LogSecurityEvent string string alert_dict

definition get_or :: "'a option \<Rightarrow> 'a \<Rightarrow> 'a" where
  "get_or v d = (case v of Some x \<Rightarrow> x | None \<Rightarrow> d)"

definition fallback_response ::
  "runtime \<Rightarrow> string \<Rightarrow> alert_dict \<Rightarrow> ThreatResponse \<times> action_call list" where
  "fallback_response rt aid fraud_alert =
     (\<lparr>alert_id = aid, actions_taken = [''Logged security event (fallback mode)''],
       status = ''fallback_completed'', response_timestamp = now rt,
       response_time_ms = elapsed_ms rt,
       response_reasoning = ''Fallback response used due to agent error''\<rparr>,
      [LogSecurityEvent ''FALLBACK_RESPONSE'' ''INFO'' fraud_alert])"

definition execute_threat_response ::
  "runtime \<Rightarrow> string \<Rightarrow> alert_dict \<Rightarrow> ThreatResponse \<times> action_call list" where
  "execute_threat_response rt aid fraud_alert =
     (if stage_fault rt then fallback_response rt aid fraud_alert
      else
        let risk = get_or (d_risk_score fraud_alert) 0.0;
            tid = get_or (d_transaction_id fraud_alert) ''unknown'';
            uid = get_or (d_user_id fraud_alert) ''unknown'';
            (taken, calls) =
              (if risk \<ge> 0.7 then
                 ([''Blocked transaction '' @ tid,
                   ''Froze account '' @ uid @ '' for 24 hours'',
                   ''Sent urgent fraud alert to '' @ uid,
                   ''Logged critical security event''],
                  [BlockTransaction tid,
                   FreezeAccount uid 24,
                   SendFraudAlert uid ''SMS''
                     ''URGENT: Suspicious activity detected. Account temporarily secured.'',
                   LogSecurityEvent ''CRITICAL_FRAUD'' ''HIGH'' fraud_alert])
               else if risk \<ge> 0.5 then
                 ([''Required 2FA verification for '' @ uid,
                   ''Sent security alert to '' @ uid,
                   ''Logged high-risk security event''],
                  [RequireVerification uid ''2FA'',
                   SendFraudAlert uid ''EMAIL''
                     ''Security verification required for recent transaction.'',
                   LogSecurityEvent ''HIGH_FRAUD'' ''MEDIUM'' fraud_alert])
               else if risk \<ge> 0.3 then
                 ([''Required SMS verification for '' @ uid,
                   ''Logged medium-risk security event''],
                  [RequireVerification uid ''SMS_CODE'',
                   LogSecurityEvent ''MEDIUM_FRAUD'' ''LOW'' fraud_alert])
               else
                 ([''Logged low-risk security event''],
                  [LogSecurityEvent ''LOW_FRAUD'' ''INFO'' fraud_alert]))
        in (\<lparr>alert_id = aid, actions_taken = taken, status = ''completed'',
             response_timestamp = now rt, response_time_ms = elapsed_ms rt,
             response_reasoning = narrative rt\<rparr>, calls))"

subsection \<open>Application state and the request handlers\<close>

text \<open>One entry of \<^verbatim>\<open>agent_metrics\<close>; \<^verbatim>\<open>last_activity\<close> is \<^verbatim>\<open>None\<close> until the first update.\<close>

record agent_metric =
  processed :: nat
  errors :: nat
  last_activity :: "datetime option"

text \<open>
  \<^verbatim>\<open>class ApplicationState\<close>. The dictionary \<^verbatim>\<open>agent_metrics\<close> has exactly three keys, one
  field each here; an observer is identified by a number; a queue is the list of its
  pending items, oldest first.
\<close>

record ApplicationState =
  active_alerts :: "string \<rightharpoonup> FraudAlert"
  fraud_detection :: agent_metric
  threat_response :: agent_metric
  case_manager :: agent_metric
  websocket_connections :: "nat set"
  transaction_queue :: "TransactionData list"
  alert_queue :: "alert_dict list"

definition initial_state :: ApplicationState where
  "initial_state =
     \<lparr>active_alerts = Map.empty,
      fraud_detection = \<lparr>processed = 0, errors = 0, last_activity = None\<rparr>,
      threat_response = \<lparr>processed = 0, errors = 0, last_activity = None\<rparr>,
      case_manager = \<lparr>processed = 0, errors = 0, last_activity = None\<rparr>,
      websocket_connections = {},
      transaction_queue = [],
      alert_queue = []\<rparr>"

text \<open>
  The exceptions the handlers raise or meet. \<open>Str e\<close> is the text \<^verbatim>\<open>str(e)\<close> of a caught
  exception, kept symbolic.
\<close>

datatype exn = NameError string | HTTPException nat detail
  and detail = Text string | Str exn

text \<open>
  Reading a variable inside a handler. The handler's local variables that hold a
  transaction are given as an association list; \<^verbatim>\<open>main.py\<close> binds no module-level name
  \<^verbatim>\<open>transaction_data\<close> (the only binding of that name is a local variable of
  \<^verbatim>\<open>process_transaction_queue\<close>), so a name that is not local raises \<^verbatim>\<open>NameError\<close>.
\<close>

definition read_name :: "(string \<times> 'a) list \<Rightarrow> string \<Rightarrow> exn + 'a" where
  "read_name locals name =
     (case map_of locals name of Some v \<Rightarrow> Inr v | None \<Rightarrow> Inl (NameError name))"

text \<open>The dictionary \<^verbatim>\<open>analyze_transaction\<close> returns.\<close>

record transaction_summary =
  summary_status :: string
  summary_transaction_id :: string
  summary_message :: string
  summary_alert_generated :: bool
  summary_risk_score :: real
  summary_timestamp :: datetime

text \<open>
  \<^verbatim>\<open>analyze_transaction\<close>: the \<^verbatim>\<open>try\<close> body analyses, counts, stores, and then evaluates
  \<^verbatim>\<open>app_state.transaction_queue.put(transaction_data)\<close>; any exception of the body is
  turned into \<^verbatim>\<open>HTTPException(status_code=500, detail=str(e))\<close>. State changes made
  before the exception stay.
\<close>

definition analyze_transaction ::
  "runtime \<Rightarrow> TransactionData \<Rightarrow> ApplicationState
     \<Rightarrow> (exn + transaction_summary) \<times> ApplicationState" where
  "analyze_transaction rt transaction st =
     (let alert = process_transaction_alert rt transaction;
          st1 = st\<lparr>fraud_detection :=
                     (fraud_detection st)\<lparr>processed := processed (fraud_detection st) + 1,
                                           last_activity := Some (now rt)\<rparr>\<rparr>;
          st2 = st1\<lparr>active_alerts := (active_alerts st1)(transaction_id alert \<mapsto> alert)\<rparr>
      in case read_name [(''transaction'', transaction)] ''transaction_data'' of
           Inl e \<Rightarrow> (Inl (HTTPException 500 (Str e)), st2)
         | Inr item \<Rightarrow>
             (Inr \<lparr>summary_status = ''accepted'',
                   summary_transaction_id = txn_id transaction,
                   summary_message = ''Transaction submitted for fraud analysis'',
                   summary_alert_generated = True,
                   summary_risk_score = alert_risk_score alert,
                   summary_timestamp = now rt\<rparr>,
              st2\<lparr>transaction_queue := transaction_queue st2 @ [item]\<rparr>))"

text \<open>
  \<^verbatim>\<open>broadcast_response\<close>: every connected observer is tried; \<open>delivers w\<close> tells whether
  serialising and sending to observer \<open>w\<close> succeeds; the others are removed from the set.
\<close>

definition broadcast_response :: "(nat \<Rightarrow> bool) \<Rightarrow> ApplicationState \<Rightarrow> ApplicationState" where
  "broadcast_response delivers st =
     (if websocket_connections st \<noteq> {}
      then st\<lparr>websocket_connections :=
                 websocket_connections st
                   - Set.filter (\<lambda>w. \<not> delivers w) (websocket_connections st)\<rparr>
      else st)"

text \<open>The dictionary \<^verbatim>\<open>respond_to_alert\<close> returns.\<close>

record respond_result =
  result_status :: string
  result_alert_id :: string
  result_message :: string
  response_details :: ThreatResponse
  result_timestamp :: datetime

text \<open>
  \<^verbatim>\<open>respond_to_alert\<close>. The membership test and its
  \<^verbatim>\<open>raise HTTPException(status_code=404, detail="Alert not found")\<close> stand inside the
  \<^verbatim>\<open>try\<close> whose handler is \<^verbatim>\<open>except Exception as e\<close>; \<^verbatim>\<open>HTTPException\<close> is an
  \<^verbatim>\<open>Exception\<close>, so the handler receives it, counts an error and raises status 500.
  The third component is the sequence of response calls made.
\<close>

definition respond_to_alert ::
  "runtime \<Rightarrow> (nat \<Rightarrow> bool) \<Rightarrow> string \<Rightarrow> ApplicationState
     \<Rightarrow> (exn + respond_result) \<times> ApplicationState \<times> action_call list" where
  "respond_to_alert rt delivers aid st =
     (case (case active_alerts st aid of
              None \<Rightarrow> Inl (HTTPException 404 (Text ''Alert not found''), st, [])
            | Some alert \<Rightarrow>
                let alert_data =
                      \<lparr>d_transaction_id = Some (transaction_id alert),
                       d_user_id = None,
                       d_risk_score = Some (alert_risk_score alert),
                       d_risk_factors = Some (alert_risk_factors alert),
                       d_severity = Some (severity alert),
                       d_recommended_action = Some (recommended_action alert),
                       d_timestamp = Some (alert_timestamp alert)\<rparr>;
                    (response_result, calls) = execute_threat_response rt aid alert_data;
                    st1 = st\<lparr>threat_response :=
                               (threat_response st)
                                 \<lparr>processed := processed (threat_response st) + 1,
                                  last_activity := Some (now rt)\<rparr>\<rparr>;
                    st2 = broadcast_response delivers st1
                in Inr (\<lparr>result_status = ''success'', result_alert_id = aid,
                         result_message = ''Automated threat response executed'',
                         response_details = response_result,
                         result_timestamp = now rt\<rparr>, st2, calls))
      of Inl (e, st', calls) \<Rightarrow>
           (Inl (HTTPException 500 (Str e)),
            st'\<lparr>threat_response :=
                  (threat_response st')\<lparr>errors := errors (threat_response st') + 1\<rparr>\<rparr>,
            calls)
       | Inr (r, st', calls) \<Rightarrow> (Inr r, st', calls))"

subsection \<open>A concrete timestamp parser and runtime for the scenarios\<close>

text \<open>
  A fragment of \<^verbatim>\<open>datetime.fromisoformat\<close>: it accepts exactly the nineteen-character
  form \<^verbatim>\<open>YYYY-MM-DDTHH:MM:SS\<close> with a month in 1..12, a day in 1..28, an hour below 24 and
  minutes and seconds below 60, and fails on every other string. The library accepts
  each of these strings and reads the same fields from it. The general theorems below
  hold for every parser; this one instantiates them.
\<close>

definition digit_value :: "char \<Rightarrow> nat option" where
  "digit_value c =
     (let n = (of_char c :: nat) in if 48 \<le> n \<and> n \<le> 57 then Some (n - 48) else None)"

fun digits_acc :: "nat \<Rightarrow> string \<Rightarrow> nat option" where
  "digits_acc n [] = Some n"
| "digits_acc n (c # cs) =
     (case digit_value c of None \<Rightarrow> None | Some d \<Rightarrow> digits_acc (10 * n + d) cs)"

definition field :: "string \<Rightarrow> nat \<Rightarrow> nat \<Rightarrow> nat option" where
  "field s start len = digits_acc 0 (take len (drop start s))"

definition parse_iso_seconds :: "string \<Rightarrow> datetime option" where
  "parse_iso_seconds s =
     (if length s = 19 \<and> s ! 4 = CHR ''-'' \<and> s ! 7 = CHR ''-'' \<and> s ! 10 = CHR ''T''
         \<and> s ! 13 = CHR '':'' \<and> s ! 16 = CHR '':''
      then
        (case (field s 0 4, field s 5 2, field s 8 2, field s 11 2, field s 14 2, field s 17 2) of
           (Some y, Some mo, Some d, Some h, Some mi, Some se) \<Rightarrow>
             (if 1 \<le> mo \<and> mo \<le> 12 \<and> 1 \<le> d \<and> d \<le> 28 \<and> h < 24 \<and> mi < 60 \<and> se < 60
              then Some \<lparr>year = y, month = mo, day = d, hour = h, minute = mi, second = se\<rparr>
              else None)
         | _ \<Rightarrow> None)
      else None)"

text \<open>A runtime without a fault: the parser above, a fixed narrative text and clock.\<close>

definition scenario_runtime :: runtime where
  "scenario_runtime =
     \<lparr>fromisoformat = parse_iso_seconds,
      narrative = ''Error calling Bedrock model'',
      now = \<lparr>year = 2024, month = 1, day = 15, hour = 14, minute = 0, second = 1\<rparr>,
      elapsed_ms = 12,
      stage_fault = False\<rparr>"

text \<open>The same runtime when a statement of the \<^verbatim>\<open>try\<close> body raises.\<close>

definition faulty_runtime :: runtime where
  "faulty_runtime = scenario_runtime\<lparr>stage_fault := True\<rparr>"

text \<open>
  End-to-end scenario 2 of the specification: amount 50, location New York, a known
  device, a timestamp at 14:00.
\<close>

definition scenario2 :: TransactionData where
  "scenario2 =
     \<lparr>txn_id = ''txn_000002'', user_id = ''user_1001'', amount = 50,
      merchant = ''Starbucks'', location = ''New York, NY'',
      timestamp = ''2024-01-15T14:00:00'', device_id = ''device_123'',
      ip_address = ''192.168.1.10'', card_type = ''credit''\<rparr>"


text \<open>A delivery behaviour in which every send to an observer succeeds.\<close>

definition all_delivered :: "nat \<Rightarrow> bool" where
  "all_delivered w = True"

text \<open>An alert dictionary of the highest tier, as the queue worker would build it.\<close>

definition critical_alert :: alert_dict where
  "critical_alert =
     \<lparr>d_transaction_id = Some ''txn_000001'', d_user_id = Some ''user_1001'',
      d_risk_score = Some 1,
      d_risk_factors = Some [''High transaction amount (>$5000)''],
      d_severity = Some ''CRITICAL'',
      d_recommended_action = Some ''BLOCK_TRANSACTION_AND_FREEZE_ACCOUNT'',
      d_timestamp = None\<rparr>"

subsection \<open>The response table of the specification\<close>

text \<open>
  Section 4.5 of the specification in its own vocabulary, written from its words and not
  from the executor. A response step names what is done and to whom: block a
  transaction, freeze an account for a number of hours, notify a user (urgently or
  not), require a verification (two-factor or single-factor code) from a user, log a
  security event of a level.
\<close>

datatype urgency = Urgent | Routine

datatype verification = TwoFactor | SingleFactorCode

datatype event_level = HighSeverity | MediumSeverity | LowSeverity | Informational

datatype response_step =
    Block string
  | Freeze string nat
  | Notify string urgency
  | Verify string verification
  | LogEvent event_level

text \<open>
  "CRITICAL: block transaction, freeze account for a fixed 24-hour window, send an urgent
  alert notification, log a high-severity security event. HIGH: require two-factor
  verification, send an alert notification, log a medium-severity security event.
  MEDIUM: require single-factor (code) verification, log a low-severity security event.
  LOW: log an informational security event only."
\<close>

definition spec_response :: "string \<Rightarrow> string \<Rightarrow> string \<Rightarrow> response_step list" where
  "spec_response tier tid uid =
     (if tier = ''CRITICAL''
      then [Block tid, Freeze uid 24, Notify uid Urgent, LogEvent HighSeverity]
      else if tier = ''HIGH''
      then [Verify uid TwoFactor, Notify uid Routine, LogEvent MediumSeverity]
      else if tier = ''MEDIUM''
      then [Verify uid SingleFactorCode, LogEvent LowSeverity]
      else [LogEvent Informational])"

text \<open>
  What a call of the executor means in that vocabulary, read off its arguments: the
  target, the verification type (\<^verbatim>\<open>"2FA"\<close> or \<^verbatim>\<open>"SMS_CODE"\<close>), whether the message of a
  notification is marked \<^verbatim>\<open>URGENT\<close>, the severity argument of the log call. A call with
  an argument outside these means nothing (\<open>None\<close>).
\<close>

fun step_of :: "action_call \<Rightarrow> response_step option" where
  "step_of (BlockTransaction tid) = Some (Block tid)"
| "step_of (FreezeAccount uid h) = Some (Freeze uid h)"
| "step_of (SendFraudAlert uid ty msg) =
     Some (Notify uid (if startswith msg ''URGENT'' then Urgent else Routine))"
| "step_of (RequireVerification uid ty) =
     (if ty = ''2FA'' then Some (Verify uid TwoFactor)
      else if ty = ''SMS_CODE'' then Some (Verify uid SingleFactorCode)
      else None)"
| "step_of (LogSecurityEvent ev sev details) =
     (if sev = ''HIGH'' then Some (LogEvent HighSeverity)
      else if sev = ''MEDIUM'' then Some (LogEvent MediumSeverity)
      else if sev = ''LOW'' then Some (LogEvent LowSeverity)
      else if sev = ''INFO'' then Some (LogEvent Informational)
      else None)"

subsection \<open>The velocity signal with a supplied count\<close>

text \<open>
  Modelled from the spec: the velocity-tracking collaborator that supplies the
  recent-transaction count (section 4.1: "contribution 0.4 if recent-transaction-count
  (supplied by an external velocity-tracking collaborator) exceeds 5; 0.2 if it exceeds
  2") is not in the source, where \<^verbatim>\<open>check_velocity_patterns\<close> assigns the simulated
  count 3. Here the count is an input; the two tests, the factors and the contributions
  are those of \<^verbatim>\<open>check_velocity_patterns\<close>.
\<close>

definition velocity_signal :: "int \<Rightarrow> string \<Rightarrow> real \<Rightarrow> analysis" where
  "velocity_signal recent_transactions uid current_amount =
     (let (fs, s) =
            (if recent_transactions > 5
             then ([''High transaction velocity (>5 transactions recently)''], 0.4)
             else if recent_transactions > 2
             then ([''Elevated transaction velocity''], 0.2)
             else ([], 0))
      in \<lparr>analysis_type = ''velocity_analysis'', risk_factors = fs,
          risk_score = min s 1.0, recent_transaction_count = Some recent_transactions\<rparr>)"

text \<open>
  Modelled from the spec: the five analyzers when the velocity analyzer receives the count
  \<open>c\<close> from the velocity-tracking collaborator, which is not in the source. It is
  \<open>run_analyzers\<close> with \<open>velocity_signal c\<close> in the place of \<^verbatim>\<open>check_velocity_patterns\<close>.
\<close>

definition run_analyzers_with :: "int \<Rightarrow> runtime \<Rightarrow> TransactionData \<Rightarrow> analysis list" where
  "run_analyzers_with c rt t =
     [analyze_transaction_amount (amount t) (user_id t),
      analyze_location_pattern (location t) (user_id t),
      analyze_device_pattern (device_id t) (user_id t),
      analyze_time_pattern (fromisoformat rt) (timestamp t) (user_id t),
      velocity_signal c (user_id t) (amount t)]"

text \<open>
  Modelled from the spec: the analysis pipeline with the count \<open>c\<close> supplied by the
  velocity-tracking collaborator, which is not in the source. It is
  \<^verbatim>\<open>process_transaction_alert\<close> over \<open>run_analyzers_with c\<close>; at \<open>c = 3\<close> it is
  \<^verbatim>\<open>process_transaction_alert\<close> itself.
\<close>

definition process_with_velocity_count :: "int \<Rightarrow> runtime \<Rightarrow> TransactionData \<Rightarrow> FraudAlert" where
  "process_with_velocity_count c rt t =
     (if stage_fault rt then fallback_fraud_alert rt t
      else
        let (all_risk_factors, final_risk_score) = combine_analyses (run_analyzers_with c rt t);
            (sev, act) = determine_severity final_risk_score
        in \<lparr>transaction_id = txn_id t, alert_risk_score = final_risk_score,
            alert_risk_factors = all_risk_factors, severity = sev, recommended_action = act,
            alert_timestamp = now rt, agent_reasoning = narrative rt\<rparr>)"

subsection \<open>Binary64 addition\<close>

text \<open>
  The arithmetic of the aggregation loop \<^verbatim>\<open>total_risk_score += score\<close>. A Python
  \<^verbatim>\<open>float\<close> is an IEEE 754 binary64 number. A finite one is written here as a pair
  \<open>(m, e)\<close> of integers with the value \<open>m * 2 ^ e\<close>; the pair of a value is not unique,
  and two numbers are compared by their values. An addition, and the reading of a
  decimal literal, yield the exact result rounded to 53 significant bits, to the nearest
  and to the even significand on a tie. The exponent is not bounded: overflow and
  subnormal numbers, far from the magnitudes of a risk score, are not modelled.
\<close>

type_synonym binary64 = "int \<times> int"

definition b64_value :: "binary64 \<Rightarrow> real" where
  "b64_value x =
     (case x of (m, e) \<Rightarrow>
        if 0 \<le> e then of_int m * 2 ^ nat e else of_int m / 2 ^ nat (- e))"

text \<open>The number of binary digits of a positive integer.\<close>

function bit_length :: "int \<Rightarrow> int" where
  "bit_length m = (if m \<le> 0 then 0 else 1 + bit_length (m div 2))"
  by pat_completeness auto
termination
  by (relation "measure nat") auto

declare bit_length.simps [simp del]

text \<open>The integer nearest to \<open>a / b\<close> for \<open>b > 0\<close>, the even one of two equally near.\<close>

definition round_half_even :: "int \<Rightarrow> int \<Rightarrow> int" where
  "round_half_even a b =
     (let q = a div b; r = a mod b
      in if 2 * r < b then q else if 2 * r > b then q + 1 else if even q then q else q + 1)"

text \<open>Rounding of an exact value \<open>m * 2 ^ e\<close> to 53 significant bits.\<close>

definition round53 :: "binary64 \<Rightarrow> binary64" where
  "round53 x =
     (case x of (m, e) \<Rightarrow>
        let k = bit_length \<bar>m\<bar> - 53
        in if k \<le> 0 then (m, e)
           else (sgn m * round_half_even \<bar>m\<bar> (2 ^ nat k), e + k))"

definition b64_add :: "binary64 \<Rightarrow> binary64 \<Rightarrow> binary64" where
  "b64_add x y =
     (case (x, y) of ((m1, e1), (m2, e2)) \<Rightarrow>
        let e = min e1 e2
        in round53 (m1 * 2 ^ nat (e1 - e) + m2 * 2 ^ nat (e2 - e), e))"

text \<open>
  The exponent of the leading bit of \<open>n / d\<close> for positive \<open>n\<close> and \<open>d\<close>, and the
  binary64 number a decimal literal \<open>n / d\<close> denotes.
\<close>

definition floor_log2 :: "int \<Rightarrow> int \<Rightarrow> int" where
  "floor_log2 n d =
     (let k = bit_length n - bit_length d
      in if d * 2 ^ nat k \<le> n * 2 ^ nat (- k) then k else k - 1)"

definition b64_literal :: "int \<Rightarrow> int \<Rightarrow> binary64" where
  "b64_literal n d =
     (if n = 0 then (0, 0)
      else
        let sh = floor_log2 n d - 52
        in (round_half_even (n * 2 ^ nat (- sh)) (d * 2 ^ nat sh), sh))"

text \<open>The loop: the total starts at \<^verbatim>\<open>0.0\<close> and takes the scores from left to right.\<close>

definition b64_sum :: "binary64 list \<Rightarrow> binary64" where
  "b64_sum xs = foldl b64_add (0, 0) xs"



section \<open>Properties\<close>

subsection \<open>Auxiliary facts\<close>

lemma float_mod_zero_iff: "float_mod a 100 = 0 \<longleftrightarrow> (\<exists>k::int. a = 100 * of_int k)"
proof
  assume "float_mod a 100 = 0"
  then have "a = 100 * of_int \<lfloor>a / 100\<rfloor>" by (simp add: float_mod_def)
  then show "\<exists>k::int. a = 100 * of_int k" ..
next
  assume "\<exists>k::int. a = 100 * of_int k"
  then obtain k :: int where k: "a = 100 * of_int k" ..
  then have "a / 100 = of_int k" by simp
  then have "\<lfloor>a / 100\<rfloor> = k" by simp
  with k show "float_mod a 100 = 0" by (simp add: float_mod_def)
qed

lemma amount_score_eq:
  "risk_score (analyze_transaction_amount a uid) =
     (if a > 5000 then 0.3 else if a > 1000 then 0.1 else 0)
     + (if float_mod a 100 = 0 then 0.05 else 0)"
  by (simp add: analyze_transaction_amount_def)

lemma amount_score_bounds:
  "0 \<le> risk_score (analyze_transaction_amount a uid)"
  "risk_score (analyze_transaction_amount a uid) \<le> 0.35"
  by (simp_all add: amount_score_eq)




lemma velocity_score: "risk_score (check_velocity_patterns uid a) = 0.2"
  by (simp add: check_velocity_patterns_def)

text \<open>The aggregation loop appends the factor lists and adds the scores.\<close>

lemma aggregate_eq:
  "aggregate as (fs, tot) =
     (fs @ concat (map risk_factors as), tot + sum_list (map risk_score as))"
  by (induction as arbitrary: fs tot) simp_all

lemma combine_analyses_eq:
  "combine_analyses as = (concat (map risk_factors as), min (sum_list (map risk_score as)) 1)"
  by (simp add: combine_analyses_def aggregate_eq)

text \<open>The alert of a run in which no statement of the \<^verbatim>\<open>try\<close> body raised.\<close>

lemma process_no_fault:
  assumes "\<not> stage_fault rt"
  shows "process_transaction_alert rt t =
     \<lparr>transaction_id = txn_id t,
      alert_risk_score = snd (combine_analyses (run_analyzers rt t)),
      alert_risk_factors = fst (combine_analyses (run_analyzers rt t)),
      severity = fst (determine_severity (snd (combine_analyses (run_analyzers rt t)))),
      recommended_action = snd (determine_severity (snd (combine_analyses (run_analyzers rt t)))),
      alert_timestamp = now rt, agent_reasoning = narrative rt\<rparr>"
  using assms by (simp add: process_transaction_alert_def split: prod.split)

lemma scenario_not_faulty: "\<not> stage_fault scenario_runtime"
  by (simp add: scenario_runtime_def)

lemma parse_garbage: "parse_iso_seconds (replace_Z ''yesterday at noon'') = None"
  by (simp add: replace_Z_def parse_iso_seconds_def)

lemma parse_night:
  "parse_iso_seconds (replace_Z ''2024-01-15T02:30:00'') =
     Some \<lparr>year = 2024, month = 1, day = 15, hour = 2, minute = 30, second = 0\<rparr>"
  by (simp add: replace_Z_def parse_iso_seconds_def field_def digit_value_def)

lemma parse_afternoon:
  "parse_iso_seconds (replace_Z ''2024-01-15T14:00:00'') =
     Some \<lparr>year = 2024, month = 1, day = 15, hour = 14, minute = 0, second = 0\<rparr>"
  by (simp add: replace_Z_def parse_iso_seconds_def field_def digit_value_def)

text \<open>A parsed timestamp has fields in range, in particular an hour of at most 23.\<close>

lemma fromisoformat_valid:
  assumes "datetime_fromisoformat parse s = Some dt"
  shows "parse s = Some dt" and "valid_datetime dt"
  using assms by (simp_all add: datetime_fromisoformat_def split: option.splits if_splits)

lemma checked_garbage:
  "datetime_fromisoformat parse_iso_seconds (replace_Z ''yesterday at noon'') = None"
  by (simp add: datetime_fromisoformat_def parse_garbage)

lemma checked_night:
  "datetime_fromisoformat parse_iso_seconds (replace_Z ''2024-01-15T02:30:00'') =
     Some \<lparr>year = 2024, month = 1, day = 15, hour = 2, minute = 30, second = 0\<rparr>"
  by (simp add: datetime_fromisoformat_def parse_night valid_datetime_def)

lemma checked_afternoon:
  "datetime_fromisoformat parse_iso_seconds (replace_Z ''2024-01-15T14:00:00'') =
     Some \<lparr>year = 2024, month = 1, day = 15, hour = 14, minute = 0, second = 0\<rparr>"
  by (simp add: datetime_fromisoformat_def parse_afternoon valid_datetime_def)

lemma checked_late_evening:
  "datetime_fromisoformat parse_iso_seconds (replace_Z ''2024-01-15T23:30:00'') =
     Some \<lparr>year = 2024, month = 1, day = 15, hour = 23, minute = 30, second = 0\<rparr>"
  by (simp add: datetime_fromisoformat_def valid_datetime_def replace_Z_def
      parse_iso_seconds_def field_def digit_value_def)

lemma scenario2_checked_time:
  "datetime_fromisoformat (fromisoformat scenario_runtime) (replace_Z (timestamp scenario2))
     = Some \<lparr>year = 2024, month = 1, day = 15, hour = 14, minute = 0, second = 0\<rparr>"
proof -
  have "timestamp scenario2 = ''2024-01-15T14:00:00''" by (simp add: scenario2_def)
  then show ?thesis using checked_afternoon by (simp add: scenario_runtime_def)
qed

lemma faulty_is_faulty: "stage_fault faulty_runtime"
  by (simp add: faulty_runtime_def)

text \<open>The fallback: its score, and the tier its strict test \<^verbatim>\<open>risk_score > 0.3\<close> selects.\<close>

lemma fallback_score:
  "alert_risk_score (fallback_fraud_alert rt t)
     = (if amount t > 1000 then 0.3 else 0)
       + (if str_contains ''unknown'' (lower (location t)) then 0.2 else 0)"
  by (simp add: fallback_fraud_alert_def)

lemma fallback_severity:
  "severity (fallback_fraud_alert rt t)
     = (if amount t > 1000 \<and> str_contains ''unknown'' (lower (location t))
        then ''MEDIUM'' else ''LOW'')"
  "recommended_action (fallback_fraud_alert rt t)
     = (if amount t > 1000 \<and> str_contains ''unknown'' (lower (location t))
        then ''REQUIRE_BASIC_VERIFICATION'' else ''MONITOR_ONLY'')"
  by (simp_all add: fallback_fraud_alert_def)

lemma process_transaction_id: "transaction_id (process_transaction_alert rt t) = txn_id t"
  by (simp add: process_transaction_alert_def fallback_fraud_alert_def split: prod.split)

text \<open>The executor in a run without a fault: its calls and the descriptions it reports.\<close>

lemma execute_no_fault:
  assumes "\<not> stage_fault rt"
  shows "snd (execute_threat_response rt aid a)
      = (if 0.7 \<le> get_or (d_risk_score a) 0
         then [BlockTransaction (get_or (d_transaction_id a) ''unknown''),
               FreezeAccount (get_or (d_user_id a) ''unknown'') 24,
               SendFraudAlert (get_or (d_user_id a) ''unknown'') ''SMS''
                 ''URGENT: Suspicious activity detected. Account temporarily secured.'',
               LogSecurityEvent ''CRITICAL_FRAUD'' ''HIGH'' a]
         else if 0.5 \<le> get_or (d_risk_score a) 0
         then [RequireVerification (get_or (d_user_id a) ''unknown'') ''2FA'',
               SendFraudAlert (get_or (d_user_id a) ''unknown'') ''EMAIL''
                 ''Security verification required for recent transaction.'',
               LogSecurityEvent ''HIGH_FRAUD'' ''MEDIUM'' a]
         else if 0.3 \<le> get_or (d_risk_score a) 0
         then [RequireVerification (get_or (d_user_id a) ''unknown'') ''SMS_CODE'',
               LogSecurityEvent ''MEDIUM_FRAUD'' ''LOW'' a]
         else [LogSecurityEvent ''LOW_FRAUD'' ''INFO'' a])"
    and "actions_taken (fst (execute_threat_response rt aid a))
      = (if 0.7 \<le> get_or (d_risk_score a) 0
         then [''Blocked transaction '' @ get_or (d_transaction_id a) ''unknown'',
               ''Froze account '' @ get_or (d_user_id a) ''unknown'' @ '' for 24 hours'',
               ''Sent urgent fraud alert to '' @ get_or (d_user_id a) ''unknown'',
               ''Logged critical security event'']
         else if 0.5 \<le> get_or (d_risk_score a) 0
         then [''Required 2FA verification for '' @ get_or (d_user_id a) ''unknown'',
               ''Sent security alert to '' @ get_or (d_user_id a) ''unknown'',
               ''Logged high-risk security event'']
         else if 0.3 \<le> get_or (d_risk_score a) 0
         then [''Required SMS verification for '' @ get_or (d_user_id a) ''unknown'',
               ''Logged medium-risk security event'']
         else [''Logged low-risk security event''])"
    and "status (fst (execute_threat_response rt aid a)) = ''completed''"
    and "alert_id (fst (execute_threat_response rt aid a)) = aid"
  using assms by (simp_all add: execute_threat_response_def Let_def)

lemma execute_steps:
  assumes "\<not> stage_fault rt"
  shows "map step_of (snd (execute_threat_response rt aid a))
      = map Some (spec_response (fst (determine_severity (get_or (d_risk_score a) 0)))
          (get_or (d_transaction_id a) ''unknown'') (get_or (d_user_id a) ''unknown''))"
  by (simp add: execute_no_fault(1) [OF assms] determine_severity_def spec_response_def)

text \<open>The pipeline with a supplied count is the code's pipeline at the count 3.\<close>

lemma velocity_signal_3: "check_velocity_patterns uid a = velocity_signal 3 uid a"
  by (simp add: check_velocity_patterns_def velocity_signal_def)

lemma process_with_velocity_count_3:
  "process_transaction_alert rt t = process_with_velocity_count 3 rt t"
  by (simp add: process_transaction_alert_def process_with_velocity_count_def
      run_analyzers_def run_analyzers_with_def velocity_signal_3)











subsection \<open>Severity classifier\<close>

text \<open>
  Claim C1. The classifier is a function of the score alone and puts every score in
  exactly one tier: CRITICAL with BLOCK_TRANSACTION_AND_FREEZE_ACCOUNT exactly when
  \<open>s \<ge> 0.7\<close>, HIGH with REQUIRE_ADDITIONAL_VERIFICATION exactly when \<open>0.5 \<le> s < 0.7\<close>,
  MEDIUM with REQUIRE_BASIC_VERIFICATION exactly when \<open>0.3 \<le> s < 0.5\<close>, LOW with
  MONITOR_ONLY exactly when \<open>s < 0.3\<close>. The four ranges are disjoint and cover the line,
  each lower bound belongs to its tier: 0.70 is CRITICAL and 0.6999 is HIGH. In a run
  without a fault the alert's severity and action are the classifier's value at the
  alert's score.
\<close>

theorem severity_classifier:
  "(fst (determine_severity s) = ''CRITICAL'') = (0.7 \<le> s)
   \<and> (fst (determine_severity s) = ''HIGH'') = (0.5 \<le> s \<and> s < 0.7)
   \<and> (fst (determine_severity s) = ''MEDIUM'') = (0.3 \<le> s \<and> s < 0.5)
   \<and> (fst (determine_severity s) = ''LOW'') = (s < 0.3)
   \<and> (snd (determine_severity s) = ''BLOCK_TRANSACTION_AND_FREEZE_ACCOUNT'') = (0.7 \<le> s)
   \<and> (snd (determine_severity s) = ''REQUIRE_ADDITIONAL_VERIFICATION'') = (0.5 \<le> s \<and> s < 0.7)
   \<and> (snd (determine_severity s) = ''REQUIRE_BASIC_VERIFICATION'') = (0.3 \<le> s \<and> s < 0.5)
   \<and> (snd (determine_severity s) = ''MONITOR_ONLY'') = (s < 0.3)
   \<and> determine_severity 0.70 = (''CRITICAL'', ''BLOCK_TRANSACTION_AND_FREEZE_ACCOUNT'')
   \<and> determine_severity 0.6999 = (''HIGH'', ''REQUIRE_ADDITIONAL_VERIFICATION'')
   \<and> (\<not> stage_fault rt \<longrightarrow>
        (severity (process_transaction_alert rt t),
         recommended_action (process_transaction_alert rt t))
        = determine_severity (alert_risk_score (process_transaction_alert rt t)))"
  by (simp add: determine_severity_def process_no_fault)

theorem severity_classifier_witness:
  "\<not> stage_fault scenario_runtime
   \<and> (severity (process_transaction_alert scenario_runtime scenario2),
       recommended_action (process_transaction_alert scenario_runtime scenario2))
      = determine_severity (alert_risk_score (process_transaction_alert scenario_runtime scenario2))
   \<and> (fst (determine_severity 0.5) = ''HIGH'') = ((0.5::real) \<le> 0.5 \<and> (0.5::real) < 0.7)"
  using severity_classifier [of "0.5" scenario_runtime scenario2] scenario_not_faulty
  by simp

subsection \<open>Signal analyzers\<close>

text \<open>
  Claim C8 does not hold of the code after 23:00. The time analyzer returns a result for
  every timestamp string and every parser, and a failed parse gives the contribution 0.1
  with the single factor "Invalid timestamp format", as claimed. But a parsed time has
  an hour of at most 23, so the second half of the code's test, that the hour exceeds
  23, is never met: the contribution is 0.2 exactly when the hour is below 6 and 0 in
  every other case, also between 23:00 and midnight.
\<close>

theorem time_analyzer_misses_late_night:
  "(datetime_fromisoformat parse (replace_Z ts) = None \<longrightarrow>
      risk_score (analyze_time_pattern parse ts uid) = 0.1
      \<and> risk_factors (analyze_time_pattern parse ts uid) = [''Invalid timestamp format''])
   \<and> (\<forall>dt. datetime_fromisoformat parse (replace_Z ts) = Some dt \<longrightarrow>
      hour dt \<le> 23
      \<and> risk_score (analyze_time_pattern parse ts uid) = (if hour dt < 6 then 0.2 else 0)
      \<and> risk_factors (analyze_time_pattern parse ts uid)
        = (if hour dt < 6
           then [''Unusual transaction time: '' @ str_nat (hour dt) @ '':00''] else []))"
proof -
  have failed: "risk_score (analyze_time_pattern parse ts uid) = 0.1
      \<and> risk_factors (analyze_time_pattern parse ts uid) = [''Invalid timestamp format'']"
    if "datetime_fromisoformat parse (replace_Z ts) = None"
    using that by (simp add: analyze_time_pattern_def)
  have parsed: "hour dt \<le> 23
      \<and> risk_score (analyze_time_pattern parse ts uid) = (if hour dt < 6 then 0.2 else 0)
      \<and> risk_factors (analyze_time_pattern parse ts uid)
        = (if hour dt < 6
           then [''Unusual transaction time: '' @ str_nat (hour dt) @ '':00''] else [])"
    if "datetime_fromisoformat parse (replace_Z ts) = Some dt" for dt
  proof -
    from fromisoformat_valid(2) [OF that] have "hour dt < 24"
      by (simp add: valid_datetime_def)
    then show ?thesis using that by (simp add: analyze_time_pattern_def)
  qed
  from failed parsed show ?thesis by blast
qed

theorem time_analyzer_misses_late_night_witness:
  "datetime_fromisoformat parse_iso_seconds (replace_Z ''2024-01-15T23:30:00'')
       = Some \<lparr>year = 2024, month = 1, day = 15, hour = 23, minute = 30, second = 0\<rparr>
   \<and> risk_score (analyze_time_pattern parse_iso_seconds ''2024-01-15T23:30:00'' ''user_1001'') = 0
   \<and> risk_factors (analyze_time_pattern parse_iso_seconds ''2024-01-15T23:30:00'' ''user_1001'')
       = []
   \<and> datetime_fromisoformat parse_iso_seconds (replace_Z ''2024-01-15T02:30:00'')
       = Some \<lparr>year = 2024, month = 1, day = 15, hour = 2, minute = 30, second = 0\<rparr>
   \<and> risk_score (analyze_time_pattern parse_iso_seconds ''2024-01-15T02:30:00'' ''user_1001'') = 0.2
   \<and> risk_factors (analyze_time_pattern parse_iso_seconds ''2024-01-15T02:30:00'' ''user_1001'')
       = [''Unusual transaction time: 2:00'']
   \<and> datetime_fromisoformat parse_iso_seconds (replace_Z ''yesterday at noon'') = None
   \<and> risk_score (analyze_time_pattern parse_iso_seconds ''yesterday at noon'' ''user_1001'') = 0.1
   \<and> risk_factors (analyze_time_pattern parse_iso_seconds ''yesterday at noon'' ''user_1001'')
       = [''Invalid timestamp format'']"
  using time_analyzer_misses_late_night
          [of parse_iso_seconds "''2024-01-15T23:30:00''" "''user_1001''"]
    time_analyzer_misses_late_night
          [of parse_iso_seconds "''2024-01-15T02:30:00''" "''user_1001''"]
    time_analyzer_misses_late_night
          [of parse_iso_seconds "''yesterday at noon''" "''user_1001''"]
    checked_late_evening checked_night checked_garbage
  by (simp add: str_nat.simps digit_char_def)

text \<open>
  Claim C9. For every amount \<open>a \<ge> 0\<close> the amount contribution lies in \<open>[0, 0.35]\<close>; it is
  0.3 above 5000, else 0.1 above 1000, else 0, plus 0.05 when \<open>a\<close> is an integer multiple
  of 100. Across the breakpoints it does not decrease: whenever a breakpoint (1000 or
  5000) separates \<open>a\<close> from a larger amount \<open>b\<close>, the contribution of \<open>a\<close> is at most that
  of \<open>b\<close>, and the contributions at the breakpoints 0, 1000, 5000 themselves are
  non-decreasing.
\<close>

theorem amount_signal_range_and_steps:
  assumes "0 \<le> a"
  shows "0 \<le> risk_score (analyze_transaction_amount a uid)
    \<and> risk_score (analyze_transaction_amount a uid) \<le> 0.35
    \<and> risk_score (analyze_transaction_amount a uid)
        = (if a > 5000 then 0.3 else if a > 1000 then 0.1 else 0)
          + (if \<exists>k::int. a = 100 * of_int k then 0.05 else 0)
    \<and> (\<forall>b. a \<le> b \<and> (a \<le> 1000 \<and> 1000 < b \<or> a \<le> 5000 \<and> 5000 < b) \<longrightarrow>
          risk_score (analyze_transaction_amount a uid)
            \<le> risk_score (analyze_transaction_amount b uid))
    \<and> risk_score (analyze_transaction_amount 0 uid)
        \<le> risk_score (analyze_transaction_amount 1000 uid)
    \<and> risk_score (analyze_transaction_amount 1000 uid)
        \<le> risk_score (analyze_transaction_amount 5000 uid)"
proof -
  have range: "0 \<le> risk_score (analyze_transaction_amount a uid)"
    "risk_score (analyze_transaction_amount a uid) \<le> 0.35"
    by (rule amount_score_bounds)+
  have formula: "risk_score (analyze_transaction_amount a uid)
        = (if a > 5000 then 0.3 else if a > 1000 then 0.1 else 0)
          + (if \<exists>k::int. a = 100 * of_int k then 0.05 else 0)"
    by (simp only: amount_score_eq float_mod_zero_iff)
  have steps: "risk_score (analyze_transaction_amount a uid)
            \<le> risk_score (analyze_transaction_amount b uid)"
    if "a \<le> b \<and> (a \<le> 1000 \<and> 1000 < b \<or> a \<le> 5000 \<and> 5000 < b)" for b
    using that by (auto simp add: amount_score_eq)
  have points: "risk_score (analyze_transaction_amount 0 uid)
        \<le> risk_score (analyze_transaction_amount 1000 uid)"
    "risk_score (analyze_transaction_amount 1000 uid)
        \<le> risk_score (analyze_transaction_amount 5000 uid)"
    by (simp_all add: amount_score_eq float_mod_def)
  from range formula steps points show ?thesis by blast
qed

theorem amount_signal_range_and_steps_witness:
  "(0::real) \<le> 900 \<and> (900::real) \<le> 1200 \<and> (900::real) \<le> 1000 \<and> (1000::real) < 1200
   \<and> risk_score (analyze_transaction_amount 900 ''user_1001'') = 0.05
   \<and> risk_score (analyze_transaction_amount 900 ''user_1001'')
       \<le> risk_score (analyze_transaction_amount 1200 ''user_1001'')"
proof -
  have h: "(0::real) \<le> 900" by simp
  have nine: "\<exists>k::int. (900::real) = 100 * of_int k"
    by (rule exI [of _ 9]) simp
  from amount_signal_range_and_steps [OF h, of "''user_1001''"] nine
  show ?thesis by simp
qed

text \<open>
  Inside one band the round-amount bonus decides alone, so there a smaller amount can
  score higher than a larger one: 100 scores 0.05 and 150 scores 0.
\<close>

lemma amount_round_bonus_within_band:
  "risk_score (analyze_transaction_amount 150 uid)
     < risk_score (analyze_transaction_amount 100 uid)"
  by (simp add: amount_score_eq float_mod_def)

text \<open>
  Claim C10. The velocity analyzer ignores both of its arguments: for every user
  identifier and every amount it reports a recent-transaction count of 3, the
  contribution 0.2 and the single factor "Elevated transaction velocity".
\<close>

theorem velocity_constant:
  "check_velocity_patterns uid amt =
     \<lparr>analysis_type = ''velocity_analysis'',
      risk_factors = [''Elevated transaction velocity''],
      risk_score = 0.2, recent_transaction_count = Some 3\<rparr>"
  by (simp add: check_velocity_patterns_def)

subsection \<open>Risk aggregation\<close>




text \<open>
  For this transaction the binary64 total of the loop is the binary64 number of the
  literal 0.7, so the rounded score meets the CRITICAL threshold as the exact one does.
\<close>

lemma sum_case_binary64_total:
  "b64_value (b64_sum [b64_literal 1 10, b64_literal 4 10, b64_literal 0 1, b64_literal 0 1,
                       b64_literal 2 10])
     = b64_value (b64_literal 7 10)"
  by (simp add: b64_literal_def floor_log2_def b64_sum_def b64_add_def round53_def
      bit_length.simps round_half_even_def Let_def b64_value_def)

subsection \<open>Response executor\<close>

text \<open>
  Claim C2. In a run without a fault the executor chooses its branch from the alert's
  score by the classifier's own ladder (0.7, 0.5, 0.3): its calls, read in the
  specification's vocabulary, are the specification's steps for the tier the classifier
  gives that score, applied to the alert's transaction and user. The calls and the
  reported descriptions are exactly: for a score of at least 0.7, block the transaction,
  freeze the account for 24 hours, send the urgent alert, log the event (four); from 0.5,
  require two-factor verification, send the alert, log (three); from 0.3, require code
  verification, log (two); otherwise log only (one). The response is completed and
  carries the alert identifier. Replacing the alert's factor list changes neither the
  reported actions nor the steps taken.
\<close>

theorem response_executor_follows_ladder:
  assumes "\<not> stage_fault rt"
  shows "map step_of (snd (execute_threat_response rt aid a))
      = map Some (spec_response (fst (determine_severity (get_or (d_risk_score a) 0)))
          (get_or (d_transaction_id a) ''unknown'') (get_or (d_user_id a) ''unknown''))
    \<and> snd (execute_threat_response rt aid a)
      = (if 0.7 \<le> get_or (d_risk_score a) 0
         then [BlockTransaction (get_or (d_transaction_id a) ''unknown''),
               FreezeAccount (get_or (d_user_id a) ''unknown'') 24,
               SendFraudAlert (get_or (d_user_id a) ''unknown'') ''SMS''
                 ''URGENT: Suspicious activity detected. Account temporarily secured.'',
               LogSecurityEvent ''CRITICAL_FRAUD'' ''HIGH'' a]
         else if 0.5 \<le> get_or (d_risk_score a) 0
         then [RequireVerification (get_or (d_user_id a) ''unknown'') ''2FA'',
               SendFraudAlert (get_or (d_user_id a) ''unknown'') ''EMAIL''
                 ''Security verification required for recent transaction.'',
               LogSecurityEvent ''HIGH_FRAUD'' ''MEDIUM'' a]
         else if 0.3 \<le> get_or (d_risk_score a) 0
         then [RequireVerification (get_or (d_user_id a) ''unknown'') ''SMS_CODE'',
               LogSecurityEvent ''MEDIUM_FRAUD'' ''LOW'' a]
         else [LogSecurityEvent ''LOW_FRAUD'' ''INFO'' a])
    \<and> actions_taken (fst (execute_threat_response rt aid a))
      = (if 0.7 \<le> get_or (d_risk_score a) 0
         then [''Blocked transaction '' @ get_or (d_transaction_id a) ''unknown'',
               ''Froze account '' @ get_or (d_user_id a) ''unknown'' @ '' for 24 hours'',
               ''Sent urgent fraud alert to '' @ get_or (d_user_id a) ''unknown'',
               ''Logged critical security event'']
         else if 0.5 \<le> get_or (d_risk_score a) 0
         then [''Required 2FA verification for '' @ get_or (d_user_id a) ''unknown'',
               ''Sent security alert to '' @ get_or (d_user_id a) ''unknown'',
               ''Logged high-risk security event'']
         else if 0.3 \<le> get_or (d_risk_score a) 0
         then [''Required SMS verification for '' @ get_or (d_user_id a) ''unknown'',
               ''Logged medium-risk security event'']
         else [''Logged low-risk security event''])
    \<and> length (actions_taken (fst (execute_threat_response rt aid a)))
      = length (snd (execute_threat_response rt aid a))
    \<and> status (fst (execute_threat_response rt aid a)) = ''completed''
    \<and> alert_id (fst (execute_threat_response rt aid a)) = aid
    \<and> actions_taken (fst (execute_threat_response rt aid (a\<lparr>d_risk_factors := fs\<rparr>)))
      = actions_taken (fst (execute_threat_response rt aid a))
    \<and> map step_of (snd (execute_threat_response rt aid (a\<lparr>d_risk_factors := fs\<rparr>)))
      = map step_of (snd (execute_threat_response rt aid a))"
proof -
  note ex = execute_no_fault [OF assms]
  have steps: "map step_of (snd (execute_threat_response rt aid b))
      = map Some (spec_response (fst (determine_severity (get_or (d_risk_score b) 0)))
          (get_or (d_transaction_id b) ''unknown'') (get_or (d_user_id b) ''unknown''))" for b
    by (rule execute_steps [OF assms])
  have len: "length (actions_taken (fst (execute_threat_response rt aid a)))
      = length (snd (execute_threat_response rt aid a))"
    by (simp add: ex)
  have same_taken:
    "actions_taken (fst (execute_threat_response rt aid (a\<lparr>d_risk_factors := fs\<rparr>)))
      = actions_taken (fst (execute_threat_response rt aid a))"
    by (simp add: ex)
  have same_steps:
    "map step_of (snd (execute_threat_response rt aid (a\<lparr>d_risk_factors := fs\<rparr>)))
      = map step_of (snd (execute_threat_response rt aid a))"
    by (simp add: steps)
  from steps [of a] ex(1) [of aid a] ex(2) [of aid a] len ex(3) [of aid a] ex(4) [of aid a]
    same_taken same_steps
  show ?thesis by blast
qed

theorem response_executor_follows_ladder_witness:
  "\<not> stage_fault scenario_runtime
   \<and> map step_of (snd (execute_threat_response scenario_runtime ''txn_000001'' critical_alert))
      = [Some (Block ''txn_000001''), Some (Freeze ''user_1001'' 24),
         Some (Notify ''user_1001'' Urgent), Some (LogEvent HighSeverity)]
   \<and> snd (execute_threat_response scenario_runtime ''txn_000001'' critical_alert)
      = [BlockTransaction ''txn_000001'', FreezeAccount ''user_1001'' 24,
         SendFraudAlert ''user_1001'' ''SMS''
           ''URGENT: Suspicious activity detected. Account temporarily secured.'',
         LogSecurityEvent ''CRITICAL_FRAUD'' ''HIGH'' critical_alert]
   \<and> actions_taken (fst (execute_threat_response scenario_runtime ''txn_000001'' critical_alert))
      = [''Blocked transaction txn_000001'', ''Froze account user_1001 for 24 hours'',
         ''Sent urgent fraud alert to user_1001'', ''Logged critical security event'']
   \<and> status (fst (execute_threat_response scenario_runtime ''txn_000001'' critical_alert))
      = ''completed''
   \<and> actions_taken (fst (execute_threat_response scenario_runtime ''txn_000001''
         (critical_alert\<lparr>d_risk_factors := Some []\<rparr>)))
      = actions_taken (fst (execute_threat_response scenario_runtime ''txn_000001'' critical_alert))"
proof -
  have score: "get_or (d_risk_score critical_alert) 0 = 1"
    by (simp add: critical_alert_def get_or_def)
  have ids: "get_or (d_transaction_id critical_alert) ''unknown'' = ''txn_000001''"
    "get_or (d_user_id critical_alert) ''unknown'' = ''user_1001''"
    by (simp_all add: critical_alert_def get_or_def)
  from response_executor_follows_ladder
         [OF scenario_not_faulty, of "''txn_000001''" critical_alert "Some []"]
  show ?thesis
    using scenario_not_faulty
    by (simp add: score ids determine_severity_def spec_response_def)
qed

subsection \<open>Fallback after a stage failure\<close>

text \<open>
  Claim C6, as stated, fails: with a fault, a transaction of amount 50 whose location is
  "Unknown" has an unknown location and is still classified LOW with MONITOR_ONLY, where
  the claim promises MEDIUM.
\<close>

theorem fallback_unknown_location_counterexample:
  "stage_fault faulty_runtime
   \<and> str_contains ''unknown'' (lower (location (scenario2\<lparr>location := ''Unknown''\<rparr>)))
   \<and> severity (process_transaction_alert faulty_runtime (scenario2\<lparr>location := ''Unknown''\<rparr>))
       = ''LOW''
   \<and> recommended_action
        (process_transaction_alert faulty_runtime (scenario2\<lparr>location := ''Unknown''\<rparr>))
       = ''MONITOR_ONLY''"
  by (simp add: process_transaction_alert_def faulty_is_faulty fallback_severity
      scenario2_def lower_def lower_char_def)

text \<open>
  Claim C6, amended. When a stage failure occurs the pipeline still returns an alert for
  the transaction, with a score in \<open>[0, 1]\<close> and with either MEDIUM and
  REQUIRE_BASIC_VERIFICATION or LOW and MONITOR_ONLY. It is MEDIUM when the amount
  exceeds 1000 and the location contains "unknown" in any letter case, and LOW whenever
  the amount is at most 1000, whatever the location.
\<close>

theorem fallback_rule:
  assumes "stage_fault rt"
  shows "transaction_id (process_transaction_alert rt t) = txn_id t
    \<and> agent_reasoning (process_transaction_alert rt t)
        = ''Fallback analysis used due to agent error''
    \<and> 0 \<le> alert_risk_score (process_transaction_alert rt t)
    \<and> alert_risk_score (process_transaction_alert rt t) \<le> 1
    \<and> (severity (process_transaction_alert rt t) = ''MEDIUM''
         \<and> recommended_action (process_transaction_alert rt t) = ''REQUIRE_BASIC_VERIFICATION''
       \<or> severity (process_transaction_alert rt t) = ''LOW''
         \<and> recommended_action (process_transaction_alert rt t) = ''MONITOR_ONLY'')
    \<and> (amount t > 1000 \<and> str_contains ''unknown'' (lower (location t)) \<longrightarrow>
          severity (process_transaction_alert rt t) = ''MEDIUM''
          \<and> recommended_action (process_transaction_alert rt t) = ''REQUIRE_BASIC_VERIFICATION'')
    \<and> (amount t \<le> 1000 \<longrightarrow>
          severity (process_transaction_alert rt t) = ''LOW''
          \<and> recommended_action (process_transaction_alert rt t) = ''MONITOR_ONLY'')"
proof -
  have eq: "process_transaction_alert rt t = fallback_fraud_alert rt t"
    using assms by (simp add: process_transaction_alert_def)
  have tid: "transaction_id (fallback_fraud_alert rt t) = txn_id t"
    "agent_reasoning (fallback_fraud_alert rt t) = ''Fallback analysis used due to agent error''"
    by (simp_all add: fallback_fraud_alert_def split: prod.split)
  show ?thesis
    unfolding eq by (simp add: tid fallback_score fallback_severity)
qed

theorem fallback_rule_witness:
  "stage_fault faulty_runtime
   \<and> amount (scenario2\<lparr>amount := 2500, location := ''unknown city''\<rparr>) > 1000
   \<and> str_contains ''unknown''
        (lower (location (scenario2\<lparr>amount := 2500, location := ''unknown city''\<rparr>)))
   \<and> severity (process_transaction_alert faulty_runtime
        (scenario2\<lparr>amount := 2500, location := ''unknown city''\<rparr>)) = ''MEDIUM''
   \<and> amount scenario2 \<le> 1000
   \<and> severity (process_transaction_alert faulty_runtime scenario2) = ''LOW''
   \<and> recommended_action (process_transaction_alert faulty_runtime scenario2) = ''MONITOR_ONLY''"
  using fallback_rule [OF faulty_is_faulty,
          of "scenario2\<lparr>amount := 2500, location := ''unknown city''\<rparr>"]
    fallback_rule [OF faulty_is_faulty, of scenario2] faulty_is_faulty
  by (simp add: scenario2_def lower_def lower_char_def)

subsection \<open>End-to-end scenario 2\<close>



text \<open>
  With the count the source assigns, 3, the same transaction scores 0.2 and is still LOW:
  this is what \<^verbatim>\<open>process_transaction_alert\<close> returns for it.
\<close>

lemma scenario2_as_shipped:
  "alert_risk_score (process_transaction_alert scenario_runtime scenario2) = 0.2
   \<and> severity (process_transaction_alert scenario_runtime scenario2) = ''LOW''"
  using scenario2_checked_time
  by (simp add: process_no_fault [OF scenario_not_faulty] combine_analyses_eq run_analyzers_def
      velocity_score analyze_time_pattern_def amount_score_eq float_mod_def
      analyze_location_pattern_def high_risk_locations_def analyze_device_pattern_def
      determine_severity_def scenario2_def)

subsection \<open>Request handlers\<close>

text \<open>
  Claim C4 does not hold of the code. For every transaction, runtime and state,
  \<^verbatim>\<open>analyze_transaction\<close> ends in the error \<^verbatim>\<open>HTTPException(500)\<close> built from the
  \<^verbatim>\<open>NameError\<close> of the unbound name \<^verbatim>\<open>transaction_data\<close>, and nothing is put on the
  transaction queue; the analysis has run by then, so the alert is stored and the
  processed counter of the fraud detection stage is one higher.
\<close>

theorem analyze_transaction_always_fails:
  "fst (analyze_transaction rt t st)
       = Inl (HTTPException 500 (Str (NameError ''transaction_data'')))
   \<and> transaction_queue (snd (analyze_transaction rt t st)) = transaction_queue st
   \<and> active_alerts (snd (analyze_transaction rt t st))
       = (active_alerts st)(txn_id t \<mapsto> process_transaction_alert rt t)
   \<and> processed (fraud_detection (snd (analyze_transaction rt t st)))
       = processed (fraud_detection st) + 1
   \<and> errors (fraud_detection (snd (analyze_transaction rt t st)))
       = errors (fraud_detection st)"
  by (simp add: analyze_transaction_def read_name_def Let_def process_transaction_id)

theorem analyze_transaction_always_fails_witness:
  "fst (analyze_transaction scenario_runtime scenario2 initial_state)
       = Inl (HTTPException 500 (Str (NameError ''transaction_data'')))
   \<and> transaction_queue (snd (analyze_transaction scenario_runtime scenario2 initial_state)) = []
   \<and> processed (fraud_detection (snd (analyze_transaction scenario_runtime scenario2 initial_state)))
       = 1"
  using analyze_transaction_always_fails [of scenario_runtime scenario2 initial_state]
  by (simp add: initial_state_def)

text \<open>
  Claim C5 does not hold of the code. When the alert identifier is absent from the alert
  store, \<^verbatim>\<open>respond_to_alert\<close> raises the not-found error inside its own \<^verbatim>\<open>try\<close>, whose
  handler turns it into status 500 and counts an error for the threat response stage.
  The alert store, the observers and the queues are unchanged; no response call is made.
\<close>

theorem respond_to_absent_alert:
  assumes "active_alerts st aid = None"
  shows "respond_to_alert rt delivers aid st =
     (Inl (HTTPException 500 (Str (HTTPException 404 (Text ''Alert not found'')))),
      st\<lparr>threat_response :=
           (threat_response st)\<lparr>errors := errors (threat_response st) + 1\<rparr>\<rparr>,
      [])"
  using assms by (simp add: respond_to_alert_def)

theorem respond_to_absent_alert_witness:
  "active_alerts initial_state ''txn_never_submitted'' = None
   \<and> fst (respond_to_alert scenario_runtime all_delivered ''txn_never_submitted'' initial_state)
       = Inl (HTTPException 500 (Str (HTTPException 404 (Text ''Alert not found''))))
   \<and> errors (threat_response (fst (snd
        (respond_to_alert scenario_runtime all_delivered ''txn_never_submitted'' initial_state))))
       = 1
   \<and> errors (threat_response initial_state) = 0"
proof -
  have absent: "active_alerts initial_state ''txn_never_submitted'' = None"
    by (simp add: initial_state_def)
  from respond_to_absent_alert [OF absent, of scenario_runtime all_delivered] absent
  show ?thesis by (simp add: initial_state_def)
qed

end
